theory Spec2Isabelle
  imports Complex_Main "HOL-Library.Multiset"
begin

section \<open>Arrays, errors and the random generator\<close>

text \<open>
  The two source files are \<^verbatim>\<open>ml_tooling/plots/target_feature_distribution.py\<close> and
  \<^verbatim>\<open>ml_tooling/data/sql.py\<close>.

  A float64 entry is either a number or NaN. Numbers are kept as exact rationals: rounding
  and the infinities of IEEE arithmetic are outside this model. A one-dimensional array is
  homogeneous, as numpy builds it from a homogeneous sequence: a float array, or an array of
  strings (dtype \<^verbatim>\<open><U\<close>), which cannot hold a NaN.
\<close>

datatype fl = Fin rat | NaN

datatype ndarray = FloatArr "fl list" | StrArr "string list"

text \<open>
  The exceptions the body can raise: \<^verbatim>\<open>VizError\<close> (lines 49 and 64, told apart by their
  message), the \<^verbatim>\<open>TypeError\<close> of \<^verbatim>\<open>np.isnan\<close> on a dtype it is not defined for, the
  \<^verbatim>\<open>KeyError\<close> of the dict lookup on line 59, the \<^verbatim>\<open>IndexError\<close> of a boolean mask whose
  length differs from the indexed array, and the \<^verbatim>\<open>ValueError\<close> of
  \<^verbatim>\<open>np.random.choice\<close> and \<^verbatim>\<open>reshape\<close>.
\<close>

datatype error =
    VizError string
  | TypeError
  | KeyError string
  | IndexError
  | ValueError

definition nan_message :: string where
  "nan_message =
     ''Target feature distribution plot only works if feature and target do not contain NaN Values''"

definition limit_message :: string where
  "limit_message = ''Should there be a limit''"

text \<open>
  \<^verbatim>\<open>np.random\<close> is a global generator: hidden state that every draw reads and advances.
  It is modelled as the sequence of raw outputs it will produce and a cursor into it.
\<close>

record bit_generator =
  raw :: "nat \<Rightarrow> nat"
  cursor :: nat

section \<open>The numpy functions the body calls\<close>

definition np_isnan :: "ndarray \<Rightarrow> error + bool list" where
  "np_isnan a =
     (case a of
        FloatArr xs \<Rightarrow> Inr (map (\<lambda>x. x = NaN) xs)
      | StrArr ss \<Rightarrow> Inl TypeError)"

definition np_any :: "bool list \<Rightarrow> bool" where
  "np_any bs = list_ex (\<lambda>b. b) bs"

text \<open>The numbers of an array; used past the NaN check, where every entry is a number.\<close>

fun fl_values :: "fl list \<Rightarrow> rat list" where
  "fl_values [] = []"
| "fl_values (Fin r # xs) = r # fl_values xs"
| "fl_values (NaN # xs) = fl_values xs"

definition values_of :: "ndarray \<Rightarrow> rat list" where
  "values_of a = (case a of FloatArr xs \<Rightarrow> fl_values xs | StrArr ss \<Rightarrow> [])"

text \<open>\<^verbatim>\<open>np.unique\<close>: sort, then drop every entry equal to its predecessor.\<close>

definition np_unique :: "rat list \<Rightarrow> rat list" where
  "np_unique xs = remdups_adj (sort xs)"

text \<open>\<^verbatim>\<open>feature == category\<close>: the elementwise comparison, a boolean mask.\<close>

definition np_equal :: "rat list \<Rightarrow> rat \<Rightarrow> bool list" where
  "np_equal xs c = map (\<lambda>x. x = c) xs"

text \<open>\<^verbatim>\<open>target[mask]\<close>: the entries where the mask is true; the lengths must agree.\<close>

definition np_getitem_mask :: "rat list \<Rightarrow> bool list \<Rightarrow> error + rat list" where
  "np_getitem_mask xs bmask =
     (if length bmask \<noteq> length xs then Inl IndexError
      else Inr (map fst (filter snd (zip xs bmask))))"

definition mean_val :: "rat list \<Rightarrow> rat" where
  "mean_val xs = sum_list xs / of_nat (length xs)"

definition median_val :: "rat list \<Rightarrow> rat" where
  "median_val xs =
     (let s = sort xs; n = length s in
      if odd n then s ! (n div 2)
      else (s ! (n div 2 - 1) + s ! (n div 2)) / 2)"

text \<open>\<^verbatim>\<open>np.mean\<close> and \<^verbatim>\<open>np.median\<close> of an empty array are NaN (with a warning).\<close>

definition np_mean :: "rat list \<Rightarrow> fl" where
  "np_mean xs = (if xs = [] then NaN else Fin (mean_val xs))"

definition np_median :: "rat list \<Rightarrow> fl" where
  "np_median xs = (if xs = [] then NaN else Fin (median_val xs))"

text \<open>
  \<^verbatim>\<open>np.random.choice(a, size=k, replace=True)\<close>: \<open>k\<close> entries of \<open>a\<close>, each at an index the
  generator draws below \<open>len(a)\<close>. A negative size and an empty \<open>a\<close> with a positive size
  raise \<^verbatim>\<open>ValueError\<close>.
\<close>

definition np_random_choice ::
  "rat list \<Rightarrow> int \<Rightarrow> bit_generator \<Rightarrow> error + (rat list \<times> bit_generator)" where
  "np_random_choice a k g =
     (if k < 0 then Inl ValueError
      else if a = [] \<and> 0 < k then Inl ValueError
      else Inr (map (\<lambda>j. a ! (raw g (cursor g + j) mod length a)) [0..<nat k],
                g\<lparr>cursor := cursor g + nat k\<rparr>))"

text \<open>
  A two-dimensional array in row-major order. \<^verbatim>\<open>reshape((r, -1))\<close> infers the number of
  columns; it raises \<^verbatim>\<open>ValueError\<close> when \<open>r\<close> does not divide the size or is zero.
\<close>

record matrix =
  nrows :: nat
  ncols :: nat
  cells :: "rat list"

definition np_reshape :: "rat list \<Rightarrow> nat \<Rightarrow> error + matrix" where
  "np_reshape xs r =
     (if r = 0 \<or> length xs mod r \<noteq> 0 then Inl ValueError
      else Inr \<lparr>nrows = r, ncols = length xs div r, cells = xs\<rparr>)"

definition column :: "matrix \<Rightarrow> nat \<Rightarrow> rat list" where
  "column m c = map (\<lambda>r. cells m ! (r * ncols m + c)) [0..<nrows m]"

text \<open>\<^verbatim>\<open>np.mean(m, axis=0)\<close>: the mean of every column.\<close>

definition np_mean_axis0 :: "matrix \<Rightarrow> fl list" where
  "np_mean_axis0 m = map (\<lambda>c. np_mean (column m c)) [0..<ncols m]"

text \<open>
  \<^verbatim>\<open>np.percentile(a, q)\<close> with the default linear interpolation: on the sorted array of
  \<open>n\<close> entries the virtual index is \<open>q / 100 * (n - 1)\<close>, and the result interpolates between
  the entries below and above it. A NaN in the array, or an empty array, gives NaN.
\<close>

definition percentile_val :: "rat list \<Rightarrow> rat \<Rightarrow> rat" where
  "percentile_val xs q =
     (let s = sort xs;
          n = length s;
          v = q / 100 * of_nat (n - 1);
          lo = nat \<lfloor>v\<rfloor>;
          hi = min (lo + 1) (n - 1);
          g = v - of_nat lo
      in s ! lo + (s ! hi - s ! lo) * g)"

definition np_percentile :: "fl list \<Rightarrow> rat \<Rightarrow> fl" where
  "np_percentile a q =
     (if a = [] \<or> NaN \<in> set a then NaN else Fin (percentile_val (fl_values a) q))"

section \<open>plot_target_feature_distribution\<close>

text \<open>
  The body ends in two calls of the charting library: \<^verbatim>\<open>_plot_barh\<close> with the categories,
  the aggregates and the error bars, and \<^verbatim>\<open>ax.axvline\<close> with the aggregate of the whole
  feature array. The model computes the arguments of these calls.
\<close>

record plot_request =
  categories :: "rat list"
  data :: "fl list"
  xerr :: "(fl list \<times> fl list) option"
  vline :: fl

definition agg_func_mapping :: "string \<rightharpoonup> (rat list \<Rightarrow> fl)" where
  "agg_func_mapping = [''mean'' \<mapsto> np_mean, ''median'' \<mapsto> np_median]"

text \<open>Lines 66 to 71: the list comprehension over the categories.\<close>

fun aggregate_each ::
  "(rat list \<Rightarrow> fl) \<Rightarrow> rat list \<Rightarrow> rat list \<Rightarrow> rat list \<Rightarrow> error + fl list" where
  "aggregate_each f target feature [] = Inr []"
| "aggregate_each f target feature (category # rest) =
     (case np_getitem_mask target (np_equal feature category) of
        Inl e \<Rightarrow> Inl e
      | Inr sub \<Rightarrow>
          (case aggregate_each f target feature rest of
             Inl e \<Rightarrow> Inl e
           | Inr ds \<Rightarrow> Inr (f sub # ds)))"

text \<open>
  Lines 78 to 83, one pass of the loop body: the two percentiles of the bootstrap means of
  one category, and the generator after the draw.
\<close>

definition boots_category ::
  "rat list \<Rightarrow> int \<Rightarrow> bit_generator \<Rightarrow> error + ((fl \<times> fl) \<times> bit_generator)" where
  "boots_category data_temp n_boots g =
     (case np_random_choice data_temp (n_boots * int (length data_temp)) g of
        Inl e \<Rightarrow> Inl e
      | Inr (sample, g') \<Rightarrow>
          (case np_reshape sample (length data_temp) of
             Inl e \<Rightarrow> Inl e
           | Inr boots_sample \<Rightarrow>
               (let boots_temp = np_mean_axis0 boots_sample
                in Inr ((np_percentile boots_temp (5 / 2), np_percentile boots_temp (195 / 2)),
                        g'))))"

text \<open>
  Lines 76 to 84: the loop over the categories, writing column \<open>i\<close> of the 2-row array
  \<open>percentile\<close> (kept as its two rows) and counting \<open>i\<close> up.
\<close>

fun boots_loop ::
  "rat list \<Rightarrow> rat list \<Rightarrow> int \<Rightarrow> rat list \<Rightarrow> nat \<Rightarrow> fl list \<times> fl list \<Rightarrow> bit_generator
     \<Rightarrow> error + ((fl list \<times> fl list) \<times> bit_generator)" where
  "boots_loop target feature n_boots [] i percentile g = Inr (percentile, g)"
| "boots_loop target feature n_boots (category # rest) i percentile g =
     (case np_getitem_mask target (np_equal feature category) of
        Inl e \<Rightarrow> Inl e
      | Inr data_temp \<Rightarrow>
          (case boots_category data_temp n_boots g of
             Inl e \<Rightarrow> Inl e
           | Inr ((lo, hi), g') \<Rightarrow>
               boots_loop target feature n_boots rest (i + 1)
                 ((fst percentile)[i := lo], (snd percentile)[i := hi]) g'))"

text \<open>
  Lines 73 to 84. \<^verbatim>\<open>if n_boots:\<close> is false for \<^verbatim>\<open>None\<close> and for 0; otherwise
  \<open>percentile\<close> starts as \<^verbatim>\<open>np.zeros((2, k))\<close> for the \<open>k\<close> categories and the loop fills it.
  The result is what line 94 passes on: \<^verbatim>\<open>percentile if n_boots else None\<close>.
\<close>

definition bootstrap ::
  "rat list \<Rightarrow> rat list \<Rightarrow> int option \<Rightarrow> rat list \<Rightarrow> bit_generator
     \<Rightarrow> error + ((fl list \<times> fl list) option \<times> bit_generator)" where
  "bootstrap target feature n_boots feature_categories g =
     (case n_boots of
        None \<Rightarrow> Inr (None, g)
      | Some n \<Rightarrow>
          if n = 0 then Inr (None, g)
          else
            (case boots_loop target feature n feature_categories 0
                    (replicate (length feature_categories) (Fin 0),
                     replicate (length feature_categories) (Fin 0)) g of
               Inl e \<Rightarrow> Inl e
             | Inr (percentile, g') \<Rightarrow> Inr (Some percentile, g')))"

text \<open>
  The body, in the order of the source: the NaN check (line 48), the lookup of the method
  (line 59), the categories and their limit (lines 61 to 64), the aggregates (lines 66 to
  71), the bootstrap (lines 73 to 84), and the arguments of the two charting calls. The
  result carries the generator as the call leaves it.
\<close>

definition plot_target_feature_distribution ::
  "ndarray \<Rightarrow> ndarray \<Rightarrow> string \<Rightarrow> int option \<Rightarrow> bit_generator
     \<Rightarrow> error + (plot_request \<times> bit_generator)" where
  "plot_target_feature_distribution target feature method n_boots g =
     (case np_isnan target of
        Inl e \<Rightarrow> Inl e
      | Inr nan_t \<Rightarrow>
     if np_any nan_t then Inl (VizError nan_message)
     else
     (case np_isnan feature of
        Inl e \<Rightarrow> Inl e
      | Inr nan_f \<Rightarrow>
     if np_any nan_f then Inl (VizError nan_message)
     else
     (case agg_func_mapping method of
        None \<Rightarrow> Inl (KeyError method)
      | Some selected_agg_func \<Rightarrow>
     (let feature_categories = np_unique (values_of feature) in
      if length feature_categories > 15 then Inl (VizError limit_message)
      else
     (case aggregate_each selected_agg_func (values_of target) (values_of feature)
             feature_categories of
        Inl e \<Rightarrow> Inl e
      | Inr ds \<Rightarrow>
     (case bootstrap (values_of target) (values_of feature) n_boots feature_categories g of
        Inl e \<Rightarrow> Inl e
      | Inr (percentile, g') \<Rightarrow>
          Inr (\<lparr>categories = feature_categories,
                data = ds,
                xerr = percentile,
                vline = selected_agg_func (values_of feature)\<rparr>, g')))))))"

section \<open>SQLDataSet.__init__\<close>

text \<open>
  The argument \<open>conn\<close> is an instance of \<^verbatim>\<open>Connectable\<close>, a \<^verbatim>\<open>str\<close>, or anything else.
  \<^verbatim>\<open>sa.create_engine\<close> belongs to SQLAlchemy: it is a parameter, which returns an engine
  (itself a \<^verbatim>\<open>Connectable\<close>) or raises.
\<close>

datatype ('h, 'o) conn_arg = Connectable 'h | PyStr string | Other 'o

datatype 'x init_error = InvalidConnection string | CreateEngineRaised 'x

text \<open>The instance: its attribute \<open>engine\<close>, \<open>None\<close> while it has not been assigned.\<close>

record 'h SQLDataSet =
  engine :: "'h option"

definition new_instance :: "'h SQLDataSet" where
  "new_instance = \<lparr>engine = None\<rparr>"

text \<open>
  The constructor returns the exception it raised, if any, the instance as it leaves it,
  and the calls of \<^verbatim>\<open>sa.create_engine\<close> it made.
\<close>

definition SQLDataSet_init ::
  "(string \<Rightarrow> 'kw \<Rightarrow> 'x + 'h) \<Rightarrow> 'h SQLDataSet \<Rightarrow> ('h, 'o) conn_arg \<Rightarrow> 'kw
     \<Rightarrow> 'x init_error option \<times> 'h SQLDataSet \<times> (string \<times> 'kw) list" where
  "SQLDataSet_init create_engine self conn engine_kwargs =
     (case conn of
        Connectable h \<Rightarrow> (None, self\<lparr>engine := Some h\<rparr>, [])
      | PyStr s \<Rightarrow>
          (case create_engine s engine_kwargs of
             Inl x \<Rightarrow> (Some (CreateEngineRaised x), self, [(s, engine_kwargs)])
           | Inr e \<Rightarrow> (None, self\<lparr>engine := Some e\<rparr>, [(s, engine_kwargs)]))
      | Other v \<Rightarrow> (Some (InvalidConnection ''Invalid connection''), self, []))"

section \<open>Definitions used to state the properties\<close>


text \<open>
  The target values whose aligned feature entry equals the category \<open>c\<close>, in the words of
  the specification; the source computes them as \<^verbatim>\<open>target[feature == category]\<close>.
\<close>

definition target_where :: "rat list \<Rightarrow> rat list \<Rightarrow> rat \<Rightarrow> rat list" where
  "target_where target feature c = map fst (filter (\<lambda>(t, f). f = c) (zip target feature))"


text \<open>
  The sample \<^verbatim>\<open>np.random.choice\<close> draws from \<open>d\<close> in the generator state \<open>g\<close>, and the
  columns of that sample once it is reshaped to \<open>s\<close> rows and \<open>n\<close> columns: resample \<open>c\<close>
  holds the draws at the positions \<open>c\<close>, \<open>n + c\<close>, \<open>2 n + c\<close>, ...
\<close>

definition draws :: "rat list \<Rightarrow> nat \<Rightarrow> bit_generator \<Rightarrow> rat list" where
  "draws d k g = map (\<lambda>j. d ! (raw g (cursor g + j) mod length d)) [0..<k]"

definition resamples :: "rat list \<Rightarrow> nat \<Rightarrow> nat \<Rightarrow> rat list list" where
  "resamples sample s n = map (\<lambda>c. map (\<lambda>r. sample ! (r * n + c)) [0..<s]) [0..<n]"

text \<open>The two percentiles lines 78 to 83 compute for one category, in closed form.\<close>

definition interval_of :: "rat list \<Rightarrow> nat \<Rightarrow> bit_generator \<Rightarrow> fl \<times> fl" where
  "interval_of d n g =
     (let means = map mean_val (resamples (draws d (n * length d) g) (length d) n)
      in (Fin (percentile_val means (5 / 2)), Fin (percentile_val means (195 / 2))))"


text \<open>Two generators for the concrete calls below: one whose every raw output is \<open>k\<close>, and one
  whose raw outputs vary.\<close>

definition constant_generator :: "nat \<Rightarrow> bit_generator" where
  "constant_generator k = \<lparr>raw = (\<lambda>i. k), cursor = 0\<rparr>"

definition quadratic_generator :: bit_generator where
  "quadratic_generator = \<lparr>raw = (\<lambda>i. i * i + i div 3), cursor = 0\<rparr>"

section \<open>Facts about the numpy functions\<close>


lemma fl_values_Fin: "fl_values (map Fin xs) = xs"
  by (induction xs) simp_all

lemma values_of_Fin: "values_of (FloatArr (map Fin xs)) = xs"
  by (simp add: values_of_def fl_values_Fin)

lemma agg_func_mapping_None:
  "m \<noteq> ''mean'' \<Longrightarrow> m \<noteq> ''median'' \<Longrightarrow> agg_func_mapping m = None"
  by (simp add: agg_func_mapping_def)

subsection \<open>Categories and selections\<close>

lemma distinct_remdups_adj_sorted:
  fixes xs :: "rat list"
  shows "sorted xs \<Longrightarrow> distinct (remdups_adj xs)"
proof (induction xs rule: remdups_adj.induct)
  case (3 x y xs)
  then show ?case by (cases "x = y") auto
qed simp_all

lemma sorted_np_unique: "sorted (np_unique xs)"
  by (simp add: np_unique_def)

lemma distinct_np_unique: "distinct (np_unique xs)"
  by (simp add: np_unique_def distinct_remdups_adj_sorted)

lemma set_np_unique: "set (np_unique xs) = set xs"
  by (simp add: np_unique_def)

lemma length_np_unique: "length (np_unique xs) = card (set xs)"
  using distinct_card [OF distinct_np_unique, of xs] by (simp add: set_np_unique)

lemma mask_filter:
  "length xs = length ys \<Longrightarrow>
     map fst (filter snd (zip xs (map (\<lambda>y. y = c) ys)))
       = map fst (filter (\<lambda>(t, f). f = c) (zip xs ys))"
  by (induction xs ys rule: list_induct2) simp_all

lemma np_getitem_mask_equal:
  "np_getitem_mask target (np_equal feature c)
     = (if length feature = length target then Inr (target_where target feature c)
        else Inl IndexError)"
  by (auto simp: np_getitem_mask_def np_equal_def target_where_def mask_filter)

lemma aggregate_each_aligned:
  "length feature = length target \<Longrightarrow>
     aggregate_each f target feature cs = Inr (map (\<lambda>c. f (target_where target feature c)) cs)"
  by (induction cs) (simp_all add: np_getitem_mask_equal)

lemma aggregate_each_misaligned:
  "length feature \<noteq> length target \<Longrightarrow> cs \<noteq> [] \<Longrightarrow>
     aggregate_each f target feature cs = Inl IndexError"
  by (cases cs) (simp_all add: np_getitem_mask_equal)


lemma aggregate_each_error:
  "aggregate_each f target feature cs = Inl e \<Longrightarrow> e = IndexError"
  by (cases "length feature = length target"; cases "cs = []")
     (auto simp: aggregate_each_aligned aggregate_each_misaligned)

lemma target_where_nonempty:
  assumes "length feature = length target" and "c \<in> set feature"
  shows "target_where target feature c \<noteq> []"
proof -
  from assms(2) obtain i where i: "i < length feature" "feature ! i = c"
    by (auto simp: in_set_conv_nth)
  with assms(1) have "(target ! i, c) \<in> set (zip target feature)"
    by (auto simp: in_set_zip)
  then have "(target ! i, c) \<in> set (filter (\<lambda>(t, f). f = c) (zip target feature))"
    by simp
  then show ?thesis
    unfolding target_where_def by (metis empty_iff list.set(1) map_is_Nil_conv)
qed

subsection \<open>One pass of the bootstrap loop\<close>

lemma length_draws: "length (draws d k g) = k"
  by (simp add: draws_def)


lemma np_random_choice_nonneg:
  "d \<noteq> [] \<Longrightarrow> 0 \<le> k \<Longrightarrow>
     np_random_choice d k g = Inr (draws d (nat k) g, g\<lparr>cursor := cursor g + nat k\<rparr>)"
  by (simp add: np_random_choice_def draws_def)


lemma fl_values_map_Fin_comp: "fl_values (map (\<lambda>c. Fin (f c)) cs) = map f cs"
  by (induction cs) simp_all

lemma np_mean_axis0_reshaped:
  assumes "0 < s"
  shows "np_mean_axis0 \<lparr>nrows = s, ncols = n, cells = xs\<rparr>
           = map (\<lambda>r. Fin (mean_val r)) (resamples xs s n)"
  using assms
  by (simp add: np_mean_axis0_def column_def resamples_def np_mean_def)

lemma np_percentile_Fin:
  "ms \<noteq> [] \<Longrightarrow> np_percentile (map (\<lambda>r. Fin (f r)) ms) q = Fin (percentile_val (map f ms) q)"
  by (auto simp: np_percentile_def fl_values_map_Fin_comp)

lemma boots_category_pos:
  assumes "d \<noteq> []" and "0 < n"
  shows "boots_category d n g
           = Inr (interval_of d (nat n) g, g\<lparr>cursor := cursor g + nat n * length d\<rparr>)"
proof -
  have k: "0 \<le> n * int (length d)" using assms by simp
  have s: "0 < length d" using assms by simp
  have n: "resamples xs (length d) (nat n) \<noteq> []" for xs
    using assms by (simp add: resamples_def)
  have nm: "nat (n * int (length d)) = nat n * length d"
    using assms(2) by (simp add: nat_mult_distrib)
  have r: "np_reshape (draws d (nat n * length d) g) (length d)
             = Inr \<lparr>nrows = length d, ncols = nat n, cells = draws d (nat n * length d) g\<rparr>"
    using s by (simp add: np_reshape_def length_draws)
  show ?thesis
    unfolding boots_category_def
    by (simp add: np_random_choice_nonneg [OF assms(1) k] nm r
          np_mean_axis0_reshaped [OF s] np_percentile_Fin [OF n] interval_of_def Let_def)
qed


lemma boots_loop_pos:
  assumes "length feature = length target" and "0 < n"
  shows "set cs \<subseteq> set feature \<Longrightarrow> length L = length H \<Longrightarrow> i + length cs \<le> length L \<Longrightarrow>
     \<exists>L' H' g'. boots_loop target feature n cs i (L, H) g = Inr ((L', H'), g')
        \<and> raw g' = raw g
        \<and> length L' = length L \<and> length H' = length H
        \<and> (\<forall>j<i. L' ! j = L ! j \<and> H' ! j = H ! j)
        \<and> (\<forall>k<length cs. \<exists>gk. raw gk = raw g \<and>
              (L' ! (i + k), H' ! (i + k))
                 = interval_of (target_where target feature (cs ! k)) (nat n) gk)"
proof (induction cs arbitrary: i L H g)
  case Nil
  then show ?case by simp
next
  case (Cons c cs)
  let ?d = "target_where target feature c"
  let ?g1 = "g\<lparr>cursor := cursor g + nat n * length ?d\<rparr>"
  obtain lo hi where lh: "interval_of ?d (nat n) g = (lo, hi)" by (cases "interval_of ?d (nat n) g")
  have d: "?d \<noteq> []" using Cons.prems assms(1) by (simp add: target_where_nonempty)
  have step: "boots_loop target feature n (c # cs) i (L, H) g
        = boots_loop target feature n cs (i + 1) (L[i := lo], H[i := hi]) ?g1"
    using assms by (simp add: np_getitem_mask_equal boots_category_pos [OF d] lh)
  have "\<exists>L' H' g'. boots_loop target feature n cs (i + 1) (L[i := lo], H[i := hi]) ?g1
            = Inr ((L', H'), g')
        \<and> raw g' = raw ?g1
        \<and> length L' = length (L[i := lo]) \<and> length H' = length (H[i := hi])
        \<and> (\<forall>j<i + 1. L' ! j = L[i := lo] ! j \<and> H' ! j = H[i := hi] ! j)
        \<and> (\<forall>k<length cs. \<exists>gk. raw gk = raw ?g1 \<and>
              (L' ! (i + 1 + k), H' ! (i + 1 + k))
                 = interval_of (target_where target feature (cs ! k)) (nat n) gk)"
    using Cons.prems by (intro Cons.IH) auto
  then obtain L' H' g' where
    res: "boots_loop target feature n cs (i + 1) (L[i := lo], H[i := hi]) ?g1 = Inr ((L', H'), g')"
    and rw: "raw g' = raw g"
    and len: "length L' = length L" "length H' = length H"
    and old: "\<forall>j<i + 1. L' ! j = L[i := lo] ! j \<and> H' ! j = H[i := hi] ! j"
    and new: "\<forall>k<length cs. \<exists>gk. raw gk = raw g \<and>
              (L' ! (i + 1 + k), H' ! (i + 1 + k))
                 = interval_of (target_where target feature (cs ! k)) (nat n) gk"
    by auto
  have i: "i < length L" "i < length H" using Cons.prems by auto
  have here: "L' ! i = lo" "H' ! i = hi" using old i by auto
  have before: "\<forall>j<i. L' ! j = L ! j \<and> H' ! j = H ! j" using old by auto
  have all: "\<exists>gk. raw gk = raw g \<and> (L' ! (i + k), H' ! (i + k))
                 = interval_of (target_where target feature ((c # cs) ! k)) (nat n) gk"
    if "k < length (c # cs)" for k
  proof (cases k)
    case 0
    then show ?thesis using here lh by auto
  next
    case (Suc k')
    with that new show ?thesis by auto
  qed
  show ?case
    unfolding step using res rw len before all by auto
qed


subsection \<open>Median and mean\<close>









subsection \<open>Percentiles and resamples\<close>









subsection \<open>The call on float arrays\<close>


lemma np_any_map_False: "np_any (map (\<lambda>x. False) xs) = False"
  by (induction xs) (simp_all add: np_any_def)

lemma call_numeric:
  "plot_target_feature_distribution (FloatArr (map Fin ts)) (FloatArr (map Fin fs))
       method n_boots g =
     (case agg_func_mapping method of
        None \<Rightarrow> Inl (KeyError method)
      | Some f \<Rightarrow>
          if 15 < card (set fs) then Inl (VizError limit_message)
          else
            (case aggregate_each f ts fs (np_unique fs) of
               Inl e \<Rightarrow> Inl e
             | Inr ds \<Rightarrow>
                 (case bootstrap ts fs n_boots (np_unique fs) g of
                    Inl e \<Rightarrow> Inl e
                  | Inr (p, g') \<Rightarrow>
                      Inr (\<lparr>categories = np_unique fs, data = ds, xerr = p,
                            vline = f fs\<rparr>, g'))))"
  by (simp add: plot_target_feature_distribution_def np_isnan_def np_any_map_False
        values_of_Fin length_np_unique Let_def comp_def
      split: option.splits sum.splits)



subsection \<open>The bootstrap of every category\<close>




lemma bootstrap_off:
  "bootstrap ts fs None cs g = Inr (None, g)" "bootstrap ts fs (Some 0) cs g = Inr (None, g)"
  by (simp_all add: bootstrap_def)

lemma bootstrap_pos:
  assumes "length fs = length ts" and "0 < n" and "set cs \<subseteq> set fs"
  shows "\<exists>L H g'. bootstrap ts fs (Some n) cs g = Inr (Some (L, H), g')
           \<and> length L = length cs \<and> length H = length cs
           \<and> (\<forall>k<length cs. \<exists>gk. raw gk = raw g \<and>
                 (L ! k, H ! k) = interval_of (target_where ts fs (cs ! k)) (nat n) gk)"
proof -
  let ?z = "replicate (length cs) (Fin 0)"
  from boots_loop_pos [OF assms(1,2) assms(3), of ?z ?z 0 g]
  obtain L H g' where "boots_loop ts fs n cs 0 (?z, ?z) g = Inr ((L, H), g')"
    and "length L = length cs" and "length H = length cs"
    and "\<forall>k<length cs. \<exists>gk. raw gk = raw g \<and>
           (L ! k, H ! k) = interval_of (target_where ts fs (cs ! k)) (nat n) gk"
    by auto
  then show ?thesis using assms(2) by (auto simp: bootstrap_def)
qed




lemma boots_category_error:
  "boots_category d n g = Inl e \<Longrightarrow> e = ValueError"
  by (auto simp: boots_category_def np_random_choice_def np_reshape_def Let_def
           split: if_splits sum.splits prod.splits)

lemma boots_loop_error:
  "boots_loop target feature n cs i P g = Inl e \<Longrightarrow> e = IndexError \<or> e = ValueError"
proof (induction cs arbitrary: i P g)
  case Nil
  then show ?case by simp
next
  case (Cons c cs)
  then show ?case
    by (auto simp: np_getitem_mask_def split: sum.splits prod.splits if_splits
             dest: boots_category_error)
qed

lemma bootstrap_error:
  "bootstrap ts fs n_boots cs g = Inl e \<Longrightarrow> e = IndexError \<or> e = ValueError"
  by (auto simp: bootstrap_def split: option.splits if_splits sum.splits prod.splits
           dest: boots_loop_error)

lemma boots_category_outcome:
  "map_sum id (\<lambda>r. ()) (boots_category d n g1) = map_sum id (\<lambda>r. ()) (boots_category d n g2)"
  by (simp add: boots_category_def np_random_choice_def np_reshape_def Let_def)

lemma boots_loop_outcome:
  "map_sum id (\<lambda>r. ()) (boots_loop target feature n cs i P g1)
     = map_sum id (\<lambda>r. ()) (boots_loop target feature n cs j Q g2)"
proof (induction cs arbitrary: i j P Q g1 g2)
  case Nil
  then show ?case by simp
next
  case (Cons c cs)
  show ?case
  proof (cases "np_getitem_mask target (np_equal feature c)")
    case (Inl e)
    then show ?thesis by simp
  next
    case (Inr d)
    show ?thesis
    proof (cases "boots_category d n g1")
      case Inl1: (Inl e)
      with boots_category_outcome [of d n g1 g2] have "boots_category d n g2 = Inl e"
        by (cases "boots_category d n g2") simp_all
      with Inl1 Inr show ?thesis by simp
    next
      case Inr1: (Inr r1)
      with boots_category_outcome [of d n g1 g2] obtain r2 where
        r2: "boots_category d n g2 = Inr r2"
        by (cases "boots_category d n g2") simp_all
      obtain l1 h1 g1' where r1': "r1 = ((l1, h1), g1')" by (cases r1) auto
      obtain l2 h2 g2' where r2': "r2 = ((l2, h2), g2')" by (cases r2) auto
      show ?thesis
        using Inr Inr1 r2 r1' r2' Cons.IH by simp
    qed
  qed
qed

lemma bootstrap_outcome:
  "map_sum id (\<lambda>r. ()) (bootstrap ts fs n_boots cs g1)
     = map_sum id (\<lambda>r. ()) (bootstrap ts fs n_boots cs g2)"
proof (cases n_boots)
  case None
  then show ?thesis by (simp add: bootstrap_def)
next
  case (Some n)
  let ?z = "replicate (length cs) (Fin 0)"
  show ?thesis
  proof (cases "n = 0")
    case True
    with Some show ?thesis by (simp add: bootstrap_def)
  next
    case False
    have "map_sum id (\<lambda>r. ()) (boots_loop ts fs n cs 0 (?z, ?z) g1)
            = map_sum id (\<lambda>r. ()) (boots_loop ts fs n cs 0 (?z, ?z) g2)"
      by (rule boots_loop_outcome)
    then show ?thesis
      using Some False
      by (cases "boots_loop ts fs n cs 0 (?z, ?z) g1"; cases "boots_loop ts fs n cs 0 (?z, ?z) g2")
         (auto simp: bootstrap_def)
  qed
qed


section \<open>The aggregate of every category\<close>



section \<open>The categories\<close>

text \<open>
  Claim C2, as stated, fails: a feature array of strings has no missing value and, here,
  two categories, and \<^verbatim>\<open>np.isnan(feature)\<close> on line 48 raises \<^verbatim>\<open>TypeError\<close>; no category and
  no aggregate is returned.
\<close>

theorem string_features_counterexample:
  "plot_target_feature_distribution (FloatArr [Fin 1, Fin 2]) (StrArr [''x'', ''y''])
      ''median'' None (constant_generator 0) = Inl TypeError"
  by (simp add: plot_target_feature_distribution_def np_isnan_def np_any_def)

text \<open>
  Claim C2, amended: for float arrays of equal length without NaN, a feature with at most
  15 distinct values, a recognised method, and \<open>n_boots\<close> absent or not negative, the call
  succeeds with one aggregate per distinct value of the feature; the categories are the
  distinct values of the feature, each once, in ascending order.
\<close>

theorem categories_enumerated:
  assumes "length ts = length fs" and "card (set fs) \<le> 15"
    and "method = ''mean'' \<or> method = ''median''"
    and "n_boots = None \<or> (\<exists>n. n_boots = Some n \<and> 0 \<le> n)"
  shows "\<exists>req g'. plot_target_feature_distribution (FloatArr (map Fin ts))
                     (FloatArr (map Fin fs)) method n_boots g = Inr (req, g')
           \<and> length (data req) = card (set fs)
           \<and> length (categories req) = card (set fs)
           \<and> set (categories req) = set fs
           \<and> sorted (categories req) \<and> distinct (categories req)"
proof -
  from assms(3) obtain f where f: "agg_func_mapping method = Some f"
    by (auto simp: agg_func_mapping_def)
  have agg: "aggregate_each f ts fs (np_unique fs)
               = Inr (map (\<lambda>c. f (target_where ts fs c)) (np_unique fs))"
    using assms(1) by (simp add: aggregate_each_aligned)
  have "\<exists>p g'. bootstrap ts fs n_boots (np_unique fs) g = Inr (p, g')"
  proof -
    consider "n_boots = None" | "n_boots = Some 0" | n where "n_boots = Some n" "0 < n"
      using assms(4) by force
    then show ?thesis
    proof cases
      case 1
      then show ?thesis by (simp add: bootstrap_off)
    next
      case 2
      then show ?thesis by (simp add: bootstrap_off)
    next
      case 3
      have al: "length fs = length ts" using assms(1) by simp
      have sub: "set (np_unique fs) \<subseteq> set fs" by (simp add: set_np_unique)
      from bootstrap_pos [OF al 3(2) sub, of g] show ?thesis unfolding 3(1) by blast
    qed
  qed
  then obtain p g' where b: "bootstrap ts fs n_boots (np_unique fs) g = Inr (p, g')" by blast
  have call: "plot_target_feature_distribution (FloatArr (map Fin ts))
                     (FloatArr (map Fin fs)) method n_boots g
       = Inr (\<lparr>categories = np_unique fs,
               data = map (\<lambda>c. f (target_where ts fs c)) (np_unique fs),
               xerr = p, vline = f fs\<rparr>, g')"
    using assms(2) by (simp add: call_numeric f agg b)
  let ?req = "\<lparr>categories = np_unique fs,
               data = map (\<lambda>c. f (target_where ts fs c)) (np_unique fs),
               xerr = p, vline = f fs\<rparr>"
  have "length (data ?req) = card (set fs)" by (simp add: length_np_unique)
  moreover have "length (categories ?req) = card (set fs)" by (simp add: length_np_unique)
  moreover have "set (categories ?req) = set fs" by (simp add: set_np_unique)
  moreover have "sorted (categories ?req)" by (simp add: sorted_np_unique)
  moreover have "distinct (categories ?req)" by (simp add: distinct_np_unique)
  ultimately show ?thesis using call by blast
qed

theorem categories_enumerated_witness:
  "\<exists>req g'. plot_target_feature_distribution
       (FloatArr (map Fin [1, 2, 4, 5, 7, 5, 6]))
       (FloatArr (map Fin [1, 0, 1, 0, 1, 1, 0])) ''mean'' (Some 2) quadratic_generator
         = Inr (req, g')
     \<and> length (data req) = 2 \<and> categories req = [0, 1]"
proof -
  let ?ts = "[1, 2, 4, 5, 7, 5, 6] :: rat list"
  let ?fs = "[1, 0, 1, 0, 1, 1, 0] :: rat list"
  have c: "card (set ?fs) = 2" by code_simp
  have h1: "length ?ts = length ?fs" by simp
  have h2: "card (set ?fs) \<le> 15" unfolding c by simp
  have h3: "''mean'' = ''mean'' \<or> ''mean'' = ''median''" by simp
  have h4: "Some (2::int) = None \<or> (\<exists>n. Some (2::int) = Some n \<and> 0 \<le> n)" by simp
  from categories_enumerated [OF h1 h2 h3 h4, of quadratic_generator]
  obtain req g' where call: "plot_target_feature_distribution (FloatArr (map Fin ?ts))
       (FloatArr (map Fin ?fs)) ''mean'' (Some 2) quadratic_generator = Inr (req, g')"
    and len: "length (data req) = card (set ?fs)"
    and lc: "length (categories req) = card (set ?fs)"
    and s: "set (categories req) = set ?fs"
    and srt: "sorted (categories req)" and d: "distinct (categories req)"
    by blast
  have "sorted [0, 1 :: rat]" "distinct [0, 1 :: rat]" "set [0, 1 :: rat] = set ?fs" by auto
  with srt d s have "categories req = [0, 1]"
    by (intro sorted_distinct_set_unique) simp_all
  with call len c show ?thesis by auto
qed

section \<open>The NaN check\<close>



section \<open>The limit of 15 categories\<close>

text \<open>
  Claim C4, as stated, fails: with 16 distinct values and no NaN, an unrecognised method
  raises the \<^verbatim>\<open>KeyError\<close> of line 59, before the categories are enumerated, and a feature
  array of strings raises the \<^verbatim>\<open>TypeError\<close> of the NaN check on line 48. Neither is the
  \<^verbatim>\<open>VizError\<close> of line 64.
\<close>

theorem category_limit_counterexample:
  "plot_target_feature_distribution
      (FloatArr (map Fin [0, 1, 2, 3, 4, 5, 6, 7, 8, 9, 10, 11, 12, 13, 14, 15]))
      (FloatArr (map Fin [0, 1, 2, 3, 4, 5, 6, 7, 8, 9, 10, 11, 12, 13, 14, 15]))
      ''sum'' None (constant_generator 0) = Inl (KeyError ''sum'')
   \<and> plot_target_feature_distribution
      (FloatArr (map Fin [0, 1, 2, 3, 4, 5, 6, 7, 8, 9, 10, 11, 12, 13, 14, 15]))
      (StrArr [''a'', ''b'', ''c'', ''d'', ''e'', ''f'', ''g'', ''h'', ''i'', ''j'', ''k'', ''l'',
               ''m'', ''n'', ''o'', ''p''])
      ''mean'' None (constant_generator 0) = Inl TypeError"
  by (simp add: plot_target_feature_distribution_def np_isnan_def np_any_def
        agg_func_mapping_def)

text \<open>
  Claim C4, amended: for float arrays without NaN and a recognised method, a feature with
  more than 15 distinct values makes the call raise the \<^verbatim>\<open>VizError\<close> of line 64, whatever
  the lengths of the arrays and \<open>n_boots\<close> are (the aggregation and the bootstrap, which
  would raise on them, are not reached); with 15 or fewer distinct values the call does not
  raise this error.
\<close>

theorem category_limit:
  assumes "method = ''mean'' \<or> method = ''median''"
  shows "(15 < card (set fs) \<longrightarrow>
            plot_target_feature_distribution (FloatArr (map Fin ts)) (FloatArr (map Fin fs))
              method n_boots g = Inl (VizError limit_message))
       \<and> (card (set fs) \<le> 15 \<longrightarrow>
            plot_target_feature_distribution (FloatArr (map Fin ts)) (FloatArr (map Fin fs))
              method n_boots g \<noteq> Inl (VizError limit_message))"
proof -
  from assms obtain f where f: "agg_func_mapping method = Some f"
    by (auto simp: agg_func_mapping_def)
  have over: "plot_target_feature_distribution (FloatArr (map Fin ts)) (FloatArr (map Fin fs))
              method n_boots g = Inl (VizError limit_message)" if "15 < card (set fs)"
    using that by (simp add: call_numeric f)
  have under: "plot_target_feature_distribution (FloatArr (map Fin ts)) (FloatArr (map Fin fs))
              method n_boots g \<noteq> Inl (VizError limit_message)" if le: "card (set fs) \<le> 15"
  proof
    assume a: "plot_target_feature_distribution (FloatArr (map Fin ts)) (FloatArr (map Fin fs))
              method n_boots g = Inl (VizError limit_message)"
    show False
    proof (cases "aggregate_each f ts fs (np_unique fs)")
      case (Inl e)
      with a le f aggregate_each_error [OF Inl] show False by (simp add: call_numeric)
    next
      case (Inr ds)
      show False
      proof (cases "bootstrap ts fs n_boots (np_unique fs) g")
        case (Inl e)
        with a le f Inr bootstrap_error [OF Inl] show False by (auto simp: call_numeric)
      next
        case Inr2: (Inr r)
        with a le f Inr show False by (simp add: call_numeric split: prod.splits)
      qed
    qed
  qed
  from over under show ?thesis by blast
qed

theorem category_limit_witness:
  "plot_target_feature_distribution
      (FloatArr (map Fin [0, 1, 2, 3, 4, 5, 6, 7, 8, 9, 10, 11, 12, 13, 14, 15]))
      (FloatArr (map Fin [0, 1, 2, 3, 4, 5, 6, 7, 8, 9, 10, 11, 12, 13, 14, 15]))
      ''mean'' None (constant_generator 0) = Inl (VizError limit_message)
   \<and> plot_target_feature_distribution
      (FloatArr (map Fin [0, 1, 2, 3, 4, 5, 6, 7, 8, 9, 10, 11, 12, 13, 14]))
      (FloatArr (map Fin [0, 1, 2, 3, 4, 5, 6, 7, 8, 9, 10, 11, 12, 13, 14]))
      ''mean'' None (constant_generator 0) \<noteq> Inl (VizError limit_message)"
proof -
  have m: "''mean'' = ''mean'' \<or> ''mean'' = ''median''" by simp
  have c16: "15 < card (set [0, 1, 2, 3, 4, 5, 6, 7, 8, 9, 10, 11, 12, 13, 14, 15 :: rat])"
    by simp
  have c15: "card (set [0, 1, 2, 3, 4, 5, 6, 7, 8, 9, 10, 11, 12, 13, 14 :: rat]) \<le> 15"
    by simp
  from category_limit [OF m, of "[0, 1, 2, 3, 4, 5, 6, 7, 8, 9, 10, 11, 12, 13, 14, 15]"
        "[0, 1, 2, 3, 4, 5, 6, 7, 8, 9, 10, 11, 12, 13, 14, 15]" None "constant_generator 0"] c16
  have a: "plot_target_feature_distribution
      (FloatArr (map Fin [0, 1, 2, 3, 4, 5, 6, 7, 8, 9, 10, 11, 12, 13, 14, 15]))
      (FloatArr (map Fin [0, 1, 2, 3, 4, 5, 6, 7, 8, 9, 10, 11, 12, 13, 14, 15]))
      ''mean'' None (constant_generator 0) = Inl (VizError limit_message)" by blast
  from category_limit [OF m, of "[0, 1, 2, 3, 4, 5, 6, 7, 8, 9, 10, 11, 12, 13, 14]"
        "[0, 1, 2, 3, 4, 5, 6, 7, 8, 9, 10, 11, 12, 13, 14]" None "constant_generator 0"] c15
  have b: "plot_target_feature_distribution
      (FloatArr (map Fin [0, 1, 2, 3, 4, 5, 6, 7, 8, 9, 10, 11, 12, 13, 14]))
      (FloatArr (map Fin [0, 1, 2, 3, 4, 5, 6, 7, 8, 9, 10, 11, 12, 13, 14]))
      ''mean'' None (constant_generator 0) \<noteq> Inl (VizError limit_message)" by blast
  from a b show ?thesis by (rule conjI)
qed

section \<open>The bootstrap\<close>





section \<open>The example of the specification\<close>



section \<open>The method lookup\<close>

text \<open>
  Claim C8. With a method other than \<^verbatim>\<open>"mean"\<close> and \<^verbatim>\<open>"median"\<close> the call produces no
  result: it raises the \<^verbatim>\<open>VizError\<close> or the \<^verbatim>\<open>TypeError\<close> of the NaN check, or else the
  \<^verbatim>\<open>KeyError\<close> of the lookup on line 59.
\<close>

theorem unknown_method_rejected:
  assumes "method \<noteq> ''mean''" and "method \<noteq> ''median''"
  shows "plot_target_feature_distribution target feature method n_boots g
           \<in> {Inl (VizError nan_message), Inl TypeError, Inl (KeyError method)}"
  using assms
  by (simp add: plot_target_feature_distribution_def np_isnan_def agg_func_mapping_None
           split: ndarray.splits)

theorem unknown_method_rejected_witness:
  "plot_target_feature_distribution (FloatArr [Fin 1, Fin 5]) (FloatArr [Fin 0, Fin 1])
      ''sum'' None (constant_generator 0) = Inl (KeyError ''sum'')"
proof -
  have "plot_target_feature_distribution (FloatArr [Fin 1, Fin 5]) (FloatArr [Fin 0, Fin 1])
      ''sum'' None (constant_generator 0)
           \<in> {Inl (VizError nan_message), Inl TypeError, Inl (KeyError ''sum'')}"
    by (rule unknown_method_rejected) simp_all
  moreover have "plot_target_feature_distribution (FloatArr [Fin 1, Fin 5]) (FloatArr [Fin 0, Fin 1])
      ''sum'' None (constant_generator 0) \<noteq> Inl (VizError nan_message)"
    by (simp add: plot_target_feature_distribution_def np_isnan_def np_any_def agg_func_mapping_def)
  moreover have "plot_target_feature_distribution (FloatArr [Fin 1, Fin 5]) (FloatArr [Fin 0, Fin 1])
      ''sum'' None (constant_generator 0) \<noteq> Inl TypeError"
    by (simp add: plot_target_feature_distribution_def np_isnan_def np_any_def agg_func_mapping_def)
  ultimately show ?thesis by blast
qed

section \<open>Dependence on the random generator\<close>

text \<open>
  Claim C9, as stated, fails: the bootstrap reads the global generator of \<^verbatim>\<open>np.random\<close> and
  advances it. Two calls with the same target, feature, method and \<open>n_boots\<close> give different
  interval bounds when the generator is in different states, and the call leaves the
  generator two draws further.
\<close>

theorem generator_dependence_counterexample:
  "map_sum id (xerr \<circ> fst)
      (plot_target_feature_distribution (FloatArr [Fin 1, Fin 2]) (FloatArr [Fin 0, Fin 0])
         ''mean'' (Some 1) (constant_generator 0)) = Inr (Some ([Fin 1], [Fin 1]))
   \<and> map_sum id (xerr \<circ> fst)
      (plot_target_feature_distribution (FloatArr [Fin 1, Fin 2]) (FloatArr [Fin 0, Fin 0])
         ''mean'' (Some 1) (constant_generator 1)) = Inr (Some ([Fin 2], [Fin 2]))
   \<and> map_sum id (cursor \<circ> snd)
      (plot_target_feature_distribution (FloatArr [Fin 1, Fin 2]) (FloatArr [Fin 0, Fin 0])
         ''mean'' (Some 1) (constant_generator 0)) = Inr 2"
  by code_simp

text \<open>
  Claim C9, amended: the outcome of the call apart from the interval bounds, that is the
  exception raised or else the categories, the aggregates and the reference line, is the
  same in every state of the generator.
\<close>

theorem aggregates_independent_of_generator:
  "map_sum id (\<lambda>(req, g'). (categories req, data req, vline req))
       (plot_target_feature_distribution target feature method n_boots g1)
     = map_sum id (\<lambda>(req, g'). (categories req, data req, vline req))
       (plot_target_feature_distribution target feature method n_boots g2)"
proof -
  have b: "(case bootstrap ts fs n_boots cs g1 of Inl e \<Rightarrow> Inl e
                  | Inr (percentile, g') \<Rightarrow> Inr (k, d, v))
              = (case bootstrap ts fs n_boots cs g2 of Inl e \<Rightarrow> Inl e
                  | Inr (percentile, g') \<Rightarrow> Inr (k, d, v))"
    for ts fs cs and k :: "rat list" and d :: "fl list" and v :: fl
    using bootstrap_outcome [of ts fs n_boots cs g1 g2]
    by (cases "bootstrap ts fs n_boots cs g1"; cases "bootstrap ts fs n_boots cs g2")
       (auto split: prod.splits)
  have m: "map_sum id (\<lambda>(req, g'). (categories req, data req, vline req))
             (case r of Inl e \<Rightarrow> Inl e
              | Inr (percentile, g') \<Rightarrow>
                  Inr (\<lparr>categories = k, data = d, xerr = percentile, vline = v\<rparr>, g'))
           = (case r of Inl e \<Rightarrow> Inl e | Inr (percentile, g') \<Rightarrow> Inr (k, d, v))"
    for r :: "error + ((fl list \<times> fl list) option \<times> bit_generator)"
      and k :: "rat list" and d :: "fl list" and v :: fl
    by (cases r) (auto split: prod.splits)
  show ?thesis
    unfolding plot_target_feature_distribution_def Let_def
    by (simp add: m b split: sum.splits option.splits)
qed

section \<open>The constructor of SQLDataSet\<close>

text \<open>
  Claim C10. On a fresh instance: a \<^verbatim>\<open>Connectable\<close> is stored as the engine as it is, and
  \<^verbatim>\<open>sa.create_engine\<close> is not called; for a string, \<^verbatim>\<open>sa.create_engine\<close> is called once,
  with the string and the keyword arguments, and the engine it returns is stored (an
  exception it raises goes to the caller); for anything else the constructor raises
  \<^verbatim>\<open>ValueError\<close>, calls nothing, and the instance has no engine.
\<close>

theorem SQLDataSet_init_cases:
  "SQLDataSet_init create_engine new_instance (Connectable h) kw
     = (None, \<lparr>engine = Some h\<rparr>, [])
   \<and> SQLDataSet_init create_engine new_instance (PyStr s) kw
     = (case create_engine s kw of
          Inr e \<Rightarrow> (None, \<lparr>engine = Some e\<rparr>, [(s, kw)])
        | Inl x \<Rightarrow> (Some (CreateEngineRaised x), \<lparr>engine = None\<rparr>, [(s, kw)]))
   \<and> SQLDataSet_init create_engine new_instance (Other v) kw
     = (Some (InvalidConnection ''Invalid connection''), \<lparr>engine = None\<rparr>, [])"
  by (simp add: SQLDataSet_init_def new_instance_def split: sum.splits)

end
